theory Spec2Isabelle
  imports Complex_Main "HOL-Library.Word" "HOL-Library.Signed_Division"
begin

section \<open>The allocator benchmark of examples/07-custom-allocator\<close>

text \<open>
  The development embeds \<^verbatim>\<open>src/examples/07-custom-allocator/src/benchmark.cpp\<close>:
  the result record, the stopwatch, the seven workloads and the runner with its totals.

  Conventions of the embedding:
  \<^item> \<^verbatim>\<open>size_t\<close> and pointers are 64-bit words; the null pointer is \<open>0\<close>.
  \<^item> A \<^verbatim>\<open>double\<close> is a finite real, an infinity or NaN. Finite arithmetic is exact
    (rounding and overflow to infinity are not modelled, and the two zeros are one value);
    the results that IEEE 754 gives to a division by zero and to the other special
    operands are written out.
  \<^item> \<^verbatim>\<open>malloc\<close>, \<^verbatim>\<open>free\<close>, \<^verbatim>\<open>realloc\<close> and the clock are capabilities of an
    environment record over an abstract world; every call into the allocator is appended
    to a trace.
  \<^item> The storage of \<^verbatim>\<open>std::vector\<close> and \<^verbatim>\<open>std::string\<close> comes from
    \<^verbatim>\<open>operator new\<close>, which is taken to succeed; the \<^verbatim>\<open>std::length_error\<close> of a
    request beyond \<^verbatim>\<open>max_size()\<close> is an error value.
\<close>

subsection \<open>Machine types\<close>

type_synonym size_t = "64 word"
type_synonym ptr = "64 word"

datatype double = Finite real | PosInf | NegInf | NaN

text \<open>Conversion \<^verbatim>\<open>size_t\<close> to \<^verbatim>\<open>double\<close>, as in \<^verbatim>\<open>operations / duration_ms\<close>.\<close>

definition double_of_size_t :: "size_t \<Rightarrow> double" where
  "double_of_size_t n = Finite (real (unat n))"

fun ddiv :: "double \<Rightarrow> double \<Rightarrow> double" where
  "ddiv NaN y = NaN"
| "ddiv x NaN = NaN"
| "ddiv (Finite a) (Finite b) =
     (if b = 0 then (if a = 0 then NaN else if 0 < a then PosInf else NegInf)
      else Finite (a / b))"
| "ddiv (Finite a) PosInf = Finite 0"
| "ddiv (Finite a) NegInf = Finite 0"
| "ddiv PosInf (Finite b) = (if 0 \<le> b then PosInf else NegInf)"
| "ddiv NegInf (Finite b) = (if 0 \<le> b then NegInf else PosInf)"
| "ddiv PosInf PosInf = NaN"
| "ddiv PosInf NegInf = NaN"
| "ddiv NegInf PosInf = NaN"
| "ddiv NegInf NegInf = NaN"

fun dmul :: "double \<Rightarrow> double \<Rightarrow> double" where
  "dmul NaN y = NaN"
| "dmul x NaN = NaN"
| "dmul (Finite a) (Finite b) = Finite (a * b)"
| "dmul (Finite a) PosInf = (if a = 0 then NaN else if 0 < a then PosInf else NegInf)"
| "dmul (Finite a) NegInf = (if a = 0 then NaN else if 0 < a then NegInf else PosInf)"
| "dmul PosInf (Finite b) = (if b = 0 then NaN else if 0 < b then PosInf else NegInf)"
| "dmul NegInf (Finite b) = (if b = 0 then NaN else if 0 < b then NegInf else PosInf)"
| "dmul PosInf PosInf = PosInf"
| "dmul PosInf NegInf = NegInf"
| "dmul NegInf PosInf = NegInf"
| "dmul NegInf NegInf = PosInf"

fun dadd :: "double \<Rightarrow> double \<Rightarrow> double" where
  "dadd NaN y = NaN"
| "dadd x NaN = NaN"
| "dadd (Finite a) (Finite b) = Finite (a + b)"
| "dadd (Finite a) PosInf = PosInf"
| "dadd (Finite a) NegInf = NegInf"
| "dadd PosInf (Finite b) = PosInf"
| "dadd NegInf (Finite b) = NegInf"
| "dadd PosInf PosInf = PosInf"
| "dadd PosInf NegInf = NaN"
| "dadd NegInf PosInf = NaN"
| "dadd NegInf NegInf = NegInf"

text \<open>The comparison \<^verbatim>\<open>0.0 <= x\<close>; it is false for NaN.\<close>

fun nonneg :: "double \<Rightarrow> bool" where
  "nonneg (Finite a) = (0 \<le> a)"
| "nonneg PosInf = True"
| "nonneg NegInf = False"
| "nonneg NaN = False"

subsection \<open>BenchmarkResult\<close>

record BenchmarkResult =
  name :: string
  duration_ms :: double
  operations :: size_t

text \<open>\<^verbatim>\<open>return (operations / duration_ms) * 1000.0;\<close>\<close>

definition ops_per_second :: "BenchmarkResult \<Rightarrow> double" where
  "ops_per_second r =
     dmul (ddiv (double_of_size_t (operations r)) (duration_ms r)) (Finite 1000)"

subsection \<open>Errors\<close>

text \<open>
  \<^verbatim>\<open>std::length_error\<close>, thrown by \<^verbatim>\<open>reserve\<close> and \<^verbatim>\<open>push_back\<close> when the
  vector would have to hold more than \<^verbatim>\<open>max_size()\<close> elements. Nothing in the file
  catches it: it ends the workload and the run.
\<close>

datatype error = LengthError

definition and_then :: "error + 'a \<Rightarrow> ('a \<Rightarrow> error + 'b) \<Rightarrow> error + 'b" where
  "and_then m f = (case m of Inl e \<Rightarrow> Inl e | Inr a \<Rightarrow> f a)"

subsection \<open>The environment: allocator, clock, library limits\<close>

text \<open>A call into the allocator, with its arguments and the pointer it returned.\<close>

datatype event = Malloc size_t ptr | Free ptr | Realloc ptr size_t ptr

text \<open>
  \<open>env_now k\<close> is the \<open>k\<close>-th reading of \<^verbatim>\<open>high_resolution_clock::now()\<close>, in
  nanoseconds. The three limits are \<^verbatim>\<open>max_size()\<close> of \<^verbatim>\<open>std::vector<void*>\<close>,
  \<^verbatim>\<open>std::vector<std::string>\<close> and \<^verbatim>\<open>std::vector<int>\<close>.
\<close>

record 'w env =
  env_malloc :: "size_t \<Rightarrow> 'w \<Rightarrow> ptr \<times> 'w"
  env_free :: "ptr \<Rightarrow> 'w \<Rightarrow> 'w"
  env_realloc :: "ptr \<Rightarrow> size_t \<Rightarrow> 'w \<Rightarrow> ptr \<times> 'w"
  env_now :: "nat \<Rightarrow> int"
  ptr_vector_max_size :: nat
  string_vector_max_size :: nat
  int_vector_max_size :: nat

record 'w state =
  world :: 'w
  trace :: "event list"
  clock_reads :: nat

definition malloc :: "'w env \<Rightarrow> size_t \<Rightarrow> 'w state \<Rightarrow> ptr \<times> 'w state" where
  "malloc E sz s =
     (let (p, w) = env_malloc E sz (world s)
      in (p, s\<lparr>world := w, trace := trace s @ [Malloc sz p]\<rparr>))"

definition free :: "'w env \<Rightarrow> ptr \<Rightarrow> 'w state \<Rightarrow> 'w state" where
  "free E p s = s\<lparr>world := env_free E p (world s), trace := trace s @ [Free p]\<rparr>"

definition realloc :: "'w env \<Rightarrow> ptr \<Rightarrow> size_t \<Rightarrow> 'w state \<Rightarrow> ptr \<times> 'w state" where
  "realloc E p sz s =
     (let (q, w) = env_realloc E p sz (world s)
      in (q, s\<lparr>world := w, trace := trace s @ [Realloc p sz q]\<rparr>))"

definition now :: "'w env \<Rightarrow> 'w state \<Rightarrow> int \<times> 'w state" where
  "now E s = (env_now E (clock_reads s), s\<lparr>clock_reads := Suc (clock_reads s)\<rparr>)"

subsection \<open>Timer\<close>

record Timer =
  start :: int

text \<open>\<^verbatim>\<open>Timer() : start_(std::chrono::high_resolution_clock::now()) {}\<close>; the field \<^verbatim>\<open>start_\<close> is \<open>start\<close> here.\<close>

definition Timer_init :: "'w env \<Rightarrow> 'w state \<Rightarrow> Timer \<times> 'w state" where
  "Timer_init E s = (let (t, s') = now E s in (\<lparr>start = t\<rparr>, s'))"

text \<open>
  The arithmetic of \<^verbatim>\<open>elapsed_ms\<close> on the two readings:
  \<^verbatim>\<open>duration_cast<microseconds>\<close> divides the nanosecond count by 1000 and truncates
  towards zero (\<open>sdiv\<close>); \<^verbatim>\<open>duration.count() / 1000.0\<close> is a division of doubles.
\<close>

definition elapsed_between :: "int \<Rightarrow> int \<Rightarrow> double" where
  "elapsed_between t0 t1 =
     (let duration = (t1 - t0) sdiv 1000
      in ddiv (Finite (real_of_int duration)) (Finite 1000))"

definition elapsed_ms :: "'w env \<Rightarrow> Timer \<Rightarrow> 'w state \<Rightarrow> double \<times> 'w state" where
  "elapsed_ms E timer s =
     (let (finish, s') = now E s in (elapsed_between (start timer) finish, s'))"

text \<open>
  The duration that a workload started in state \<open>s\<close> reports: its timer takes the next
  reading of the clock and \<^verbatim>\<open>elapsed_ms\<close> the one after it, since no workload reads
  the clock in between.
\<close>

abbreviation workload_duration :: "'w env \<Rightarrow> 'w state \<Rightarrow> double" where
  "workload_duration E s \<equiv>
     elapsed_between (env_now E (clock_reads s)) (env_now E (Suc (clock_reads s)))"

subsection \<open>Library operations the workloads use\<close>

text \<open>The values of \<open>i\<close> in \<^verbatim>\<open>for (size_t i = from; i < count; ++i)\<close>.\<close>

definition indices :: "size_t \<Rightarrow> size_t \<Rightarrow> size_t list" where
  "indices from count = map of_nat [unat from..<unat count]"

text \<open>\<^verbatim>\<open>v.reserve(n)\<close> on an empty vector whose \<^verbatim>\<open>max_size()\<close> is \<open>m\<close>.\<close>

definition reserve :: "nat \<Rightarrow> size_t \<Rightarrow> error + unit" where
  "reserve m n = (if m < unat n then Inl LengthError else Inr ())"

text \<open>\<^verbatim>\<open>v.push_back(x)\<close> on a vector that grows on demand.\<close>

definition push_back :: "nat \<Rightarrow> 'a list \<Rightarrow> 'a \<Rightarrow> error + 'a list" where
  "push_back m v x = (if m \<le> length v then Inl LengthError else Inr (v @ [x]))"

text \<open>\<^verbatim>\<open>ptrs.push_back(malloc(size))\<close> within the reserved capacity.\<close>

definition push_back_malloc ::
  "'w env \<Rightarrow> size_t \<Rightarrow> ptr list \<times> 'w state \<Rightarrow> ptr list \<times> 'w state" where
  "push_back_malloc E sz acc =
     (let (ptrs, s) = acc; (p, s') = malloc E sz s in (ptrs @ [p], s'))"

text \<open>\<^verbatim>\<open>std::to_string\<close> of an unsigned value: its decimal digits.\<close>

fun to_string :: "nat \<Rightarrow> string" where
  "to_string n =
     (if n < 10 then [char_of (48 + n)]
      else to_string (n div 10) @ [char_of (48 + n mod 10)])"

subsection \<open>The workloads\<close>

definition benchmark_small_allocations ::
  "'w env \<Rightarrow> size_t \<Rightarrow> 'w state \<Rightarrow> error + BenchmarkResult \<times> 'w state" where
  "benchmark_small_allocations E count s0 =
     (let (timer, s1) = Timer_init E s0
      in and_then (reserve (ptr_vector_max_size E) count) (\<lambda>_.
         let (ptrs, s2) = foldl (\<lambda>acc i. push_back_malloc E 64 acc) ([], s1) (indices 0 count);
             s3 = foldl (\<lambda>s ptr. free E ptr s) s2 ptrs;
             (ms, s4) = elapsed_ms E timer s3
         in Inr (\<lparr>name = ''Small allocations (64 bytes)'', duration_ms = ms,
                   operations = count * 2\<rparr>, s4)))"

definition benchmark_medium_allocations ::
  "'w env \<Rightarrow> size_t \<Rightarrow> 'w state \<Rightarrow> error + BenchmarkResult \<times> 'w state" where
  "benchmark_medium_allocations E count s0 =
     (let (timer, s1) = Timer_init E s0
      in and_then (reserve (ptr_vector_max_size E) count) (\<lambda>_.
         let (ptrs, s2) = foldl (\<lambda>acc i. push_back_malloc E 1024 acc) ([], s1) (indices 0 count);
             s3 = foldl (\<lambda>s ptr. free E ptr s) s2 ptrs;
             (ms, s4) = elapsed_ms E timer s3
         in Inr (\<lparr>name = ''Medium allocations (1KB)'', duration_ms = ms,
                   operations = count * 2\<rparr>, s4)))"

definition benchmark_large_allocations ::
  "'w env \<Rightarrow> size_t \<Rightarrow> 'w state \<Rightarrow> error + BenchmarkResult \<times> 'w state" where
  "benchmark_large_allocations E count s0 =
     (let (timer, s1) = Timer_init E s0
      in and_then (reserve (ptr_vector_max_size E) count) (\<lambda>_.
         let (ptrs, s2) =
               foldl (\<lambda>acc i. push_back_malloc E (1024 * 1024) acc) ([], s1) (indices 0 count);
             s3 = foldl (\<lambda>s ptr. free E ptr s) s2 ptrs;
             (ms, s4) = elapsed_ms E timer s3
         in Inr (\<lparr>name = ''Large allocations (1MB)'', duration_ms = ms,
                   operations = count * 2\<rparr>, s4)))"

definition sizes :: "size_t list" where
  "sizes = [16, 32, 64, 128, 256, 512, 1024, 2048, 4096, 8192]"

definition benchmark_mixed_sizes ::
  "'w env \<Rightarrow> size_t \<Rightarrow> 'w state \<Rightarrow> error + BenchmarkResult \<times> 'w state" where
  "benchmark_mixed_sizes E count s0 =
     (let (timer, s1) = Timer_init E s0
      in and_then (reserve (ptr_vector_max_size E) count) (\<lambda>_.
         let (ptrs, s2) =
               foldl (\<lambda>acc i. let sz = sizes ! unat (i mod 10) in push_back_malloc E sz acc)
                 ([], s1) (indices 0 count);
             s3 = foldl (\<lambda>s ptr. free E ptr s) s2 (rev ptrs);
             (ms, s4) = elapsed_ms E timer s3
         in Inr (\<lparr>name = ''Mixed size allocations'', duration_ms = ms,
                   operations = count * 2\<rparr>, s4)))"

text \<open>No library container here, hence no exception: the workload always returns.\<close>

definition benchmark_reallocations ::
  "'w env \<Rightarrow> size_t \<Rightarrow> 'w state \<Rightarrow> BenchmarkResult \<times> 'w state" where
  "benchmark_reallocations E count s0 =
     (let (timer, s1) = Timer_init E s0;
          (ptr0, s2) = malloc E 64 s1;
          (ptr, s3) =
            foldl (\<lambda>acc i. let (ptr, s) = acc in realloc E ptr (64 * (i + 1)) s)
              (ptr0, s2) (indices 1 count);
          s4 = free E ptr s3;
          (ms, s5) = elapsed_ms E timer s4
      in (\<lparr>name = ''Reallocations'', duration_ms = ms, operations = count\<rparr>, s5))"

text \<open>
  The strings live in library storage. \<^verbatim>\<open>str.reserve\<close> changes the capacity of a
  string only, which the list of characters does not show.
\<close>

definition benchmark_string_operations ::
  "'w env \<Rightarrow> size_t \<Rightarrow> 'w state \<Rightarrow> error + BenchmarkResult \<times> 'w state" where
  "benchmark_string_operations E count s0 =
     (let (timer, s1) = Timer_init E s0
      in and_then (reserve (string_vector_max_size E) count) (\<lambda>_.
         let strings =
               foldl (\<lambda>strings i. strings @ [''This is a test string number '' @ to_string (unat i)])
                 [] (indices 0 count);
             strings = map (\<lambda>str. str @ '' - modified'') strings;
             strings = ([] :: string list);
             (ms, s2) = elapsed_ms E timer s1
         in Inr (\<lparr>name = ''String operations'', duration_ms = ms,
                   operations = count * 3\<rparr>, s2)))"

text \<open>
  \<^verbatim>\<open>vec.push_back(static_cast<int>(i))\<close> for each \<open>i\<close>, stopping at the first
  exception.
\<close>

fun growth_loop :: "nat \<Rightarrow> size_t list \<Rightarrow> 32 word list \<Rightarrow> error + 32 word list" where
  "growth_loop m [] vec = Inr vec"
| "growth_loop m (i # is) vec =
     and_then (push_back m vec (ucast i)) (growth_loop m is)"

definition benchmark_container_growth ::
  "'w env \<Rightarrow> size_t \<Rightarrow> 'w state \<Rightarrow> error + BenchmarkResult \<times> 'w state" where
  "benchmark_container_growth E count s0 =
     (let (timer, s1) = Timer_init E s0
      in and_then (growth_loop (int_vector_max_size E) (indices 0 count) []) (\<lambda>vec.
         let (ms, s2) = elapsed_ms E timer s1
         in Inr (\<lparr>name = ''Vector growth'', duration_ms = ms, operations = count\<rparr>, s2)))"

subsection \<open>The runner and its totals\<close>

text \<open>
  Lines 171 to 177 of \<^verbatim>\<open>run_benchmark\<close>, as a function of the local constant
  \<^verbatim>\<open>iterations\<close>.
\<close>

definition run_workloads ::
  "'w env \<Rightarrow> size_t \<Rightarrow> 'w state \<Rightarrow> error + BenchmarkResult list \<times> 'w state" where
  "run_workloads E iterations s0 =
     and_then (benchmark_small_allocations E iterations s0) (\<lambda>(r1, s1).
     and_then (benchmark_medium_allocations E iterations s1) (\<lambda>(r2, s2).
     and_then (benchmark_large_allocations E (iterations div 10) s2) (\<lambda>(r3, s3).
     and_then (benchmark_mixed_sizes E iterations s3) (\<lambda>(r4, s4).
     and_then (Inr (benchmark_reallocations E iterations s4)) (\<lambda>(r5, s5).
     and_then (benchmark_string_operations E iterations s5) (\<lambda>(r6, s6).
     and_then (benchmark_container_growth E iterations s6) (\<lambda>(r7, s7).
     Inr ([r1, r2, r3, r4, r5, r6, r7], s7))))))))"

text \<open>
  \<^verbatim>\<open>total_time += result.duration_ms; total_ops += result.operations;\<close> over the
  results, from \<open>0.0\<close> and \<open>0\<close>.
\<close>

definition totals :: "BenchmarkResult list \<Rightarrow> double \<times> size_t" where
  "totals rs =
     foldl (\<lambda>acc result. let (total_time, total_ops) = acc
                          in (dadd total_time (duration_ms result), total_ops + operations result))
       (Finite 0, 0) rs"

text \<open>What the runner prints: the rows, the two totals and the average.\<close>

record Report =
  results :: "BenchmarkResult list"
  total_time :: double
  total_ops :: size_t
  average :: double

definition report :: "BenchmarkResult list \<Rightarrow> Report" where
  "report rs =
     (let (total_time, total_ops) = totals rs
      in \<lparr>results = rs, total_time = total_time, total_ops = total_ops,
          average = dmul (ddiv (double_of_size_t total_ops) total_time) (Finite 1000)\<rparr>)"

definition run_benchmark :: "'w env \<Rightarrow> 'w state \<Rightarrow> error + Report \<times> 'w state" where
  "run_benchmark E s =
     (let iterations = 10000
      in and_then (run_workloads E iterations s) (\<lambda>(rs, s'). Inr (report rs, s')))"

subsection \<open>Two concrete environments\<close>

text \<open>
  A bump allocator over a counter of bytes handed out, with a clock that advances 1500
  nanoseconds per reading and the limits \<^verbatim>\<open>PTRDIFF_MAX / sizeof(T)\<close> for elements of 8,
  32 and 4 bytes.
\<close>

definition bump_env :: "nat env" where
  "bump_env =
     \<lparr>env_malloc = (\<lambda>sz w. (of_nat w, w + unat sz)),
      env_free = (\<lambda>p w. w),
      env_realloc = (\<lambda>p sz w. (of_nat w, w + unat sz)),
      env_now = (\<lambda>k. 1500 * int k),
      ptr_vector_max_size = 1152921504606846975,
      string_vector_max_size = 288230376151711743,
      int_vector_max_size = 2305843009213693951\<rparr>"

text \<open>An exhausted allocator: every request returns the null pointer.\<close>

definition null_env :: "nat env" where
  "null_env =
     \<lparr>env_malloc = (\<lambda>sz w. (0, w)),
      env_free = (\<lambda>p w. w),
      env_realloc = (\<lambda>p sz w. (0, w)),
      env_now = (\<lambda>k. 1500 * int k),
      ptr_vector_max_size = 1152921504606846975,
      string_vector_max_size = 288230376151711743,
      int_vector_max_size = 2305843009213693951\<rparr>"

text \<open>
  The bump allocator under a clock that is set back by 1500 nanoseconds between any two
  readings, as a wall clock under adjustment can be.
\<close>

definition backward_env :: "nat env" where
  "backward_env =
     \<lparr>env_malloc = (\<lambda>sz w. (of_nat w, w + unat sz)),
      env_free = (\<lambda>p w. w),
      env_realloc = (\<lambda>p sz w. (of_nat w, w + unat sz)),
      env_now = (\<lambda>k. - (1500 * int k)),
      ptr_vector_max_size = 1152921504606846975,
      string_vector_max_size = 288230376151711743,
      int_vector_max_size = 2305843009213693951\<rparr>"

definition init_state :: "nat state" where
  "init_state = \<lparr>world = 4096, trace = [], clock_reads = 0\<rparr>"

section \<open>Properties\<close>

subsection \<open>What the loops and the workloads compute\<close>

lemma trace_malloc: "trace (snd (malloc E sz s)) = trace s @ [Malloc sz (fst (malloc E sz s))]"
  by (simp add: malloc_def split: prod.split)

lemma clock_malloc: "clock_reads (snd (malloc E sz s)) = clock_reads s"
  by (simp add: malloc_def split: prod.split)

lemma trace_free: "trace (free E p s) = trace s @ [Free p]"
  by (simp add: free_def)

lemma clock_free: "clock_reads (free E p s) = clock_reads s"
  by (simp add: free_def)

lemma free_loop:
  "trace (foldl (\<lambda>s ptr. free E ptr s) s ps) = trace s @ map Free ps
   \<and> clock_reads (foldl (\<lambda>s ptr. free E ptr s) s ps) = clock_reads s"
  by (induction ps arbitrary: s) (simp_all add: trace_free clock_free)

lemma malloc_loop:
  "\<exists>ps s'. foldl (\<lambda>acc i. push_back_malloc E (f i) acc) (ps0, s) xs = (ps0 @ ps, s')
     \<and> length ps = length xs
     \<and> trace s' = trace s @ map (\<lambda>(i, p). Malloc (f i) p) (zip xs ps)
     \<and> clock_reads s' = clock_reads s"
proof (induction xs rule: rev_induct)
  case Nil
  show ?case by simp
next
  case (snoc x xs)
  then obtain ps s' where h:
    "foldl (\<lambda>acc i. push_back_malloc E (f i) acc) (ps0, s) xs = (ps0 @ ps, s')"
    "length ps = length xs"
    "trace s' = trace s @ map (\<lambda>(i, p). Malloc (f i) p) (zip xs ps)"
    "clock_reads s' = clock_reads s"
    by blast
  obtain p s'' where m: "malloc E (f x) s' = (p, s'')"
    by (cases "malloc E (f x) s'")
  have t: "trace s'' = trace s' @ [Malloc (f x) p]" and c: "clock_reads s'' = clock_reads s'"
    using trace_malloc [of E "f x" s'] clock_malloc [of E "f x" s'] m by simp_all
  have "foldl (\<lambda>acc i. push_back_malloc E (f i) acc) (ps0, s) (xs @ [x]) = (ps0 @ (ps @ [p]), s'')"
    using h(1) m by (simp add: push_back_malloc_def)
  moreover have "length (ps @ [p]) = length (xs @ [x])"
    using h(2) by simp
  moreover have "trace s'' = trace s @ map (\<lambda>(i, p). Malloc (f i) p) (zip (xs @ [x]) (ps @ [p]))"
    using h(2,3) t by simp
  moreover have "clock_reads s'' = clock_reads s"
    using h(4) c by simp
  ultimately show ?case by blast
qed


lemma length_indices: "length (indices 0 count) = unat count"
  by (simp add: indices_def)

lemma map_const_zip:
  "length xs = length ps \<Longrightarrow> map (\<lambda>(i, p). h p) (zip xs ps) = map h ps"
proof -
  assume "length xs = length ps"
  then have "map snd (zip xs ps) = ps" by simp
  then have "map h (map snd (zip xs ps)) = map h ps" by simp
  moreover have "map h (map snd (zip xs ps)) = map (\<lambda>(i, p). h p) (zip xs ps)"
    by (simp add: case_prod_unfold comp_def)
  ultimately show ?thesis by simp
qed

lemma Timer_init_eq:
  "Timer_init E s = (\<lparr>start = env_now E (clock_reads s)\<rparr>, s\<lparr>clock_reads := Suc (clock_reads s)\<rparr>)"
  by (simp add: Timer_init_def now_def)

lemma elapsed_ms_eq:
  "elapsed_ms E timer s =
     (elapsed_between (start timer) (env_now E (clock_reads s)),
      s\<lparr>clock_reads := Suc (clock_reads s)\<rparr>)"
  by (simp add: elapsed_ms_def now_def)

lemma raw_body:
  assumes "unat count \<le> m"
  shows "\<exists>ps s'.
     (let (timer, s1) = Timer_init E s0
      in and_then (reserve m count) (\<lambda>_.
         let (ptrs, s2) = foldl (\<lambda>acc i. push_back_malloc E (f i) acc) ([], s1) (indices 0 count);
             s3 = foldl (\<lambda>s ptr. free E ptr s) s2 (g ptrs);
             (ms, s4) = elapsed_ms E timer s3
         in Inr (\<lparr>name = nm, duration_ms = ms, operations = ops\<rparr>, s4)))
     = Inr (\<lparr>name = nm,
              duration_ms = elapsed_between (env_now E (clock_reads s0))
                              (env_now E (Suc (clock_reads s0))),
              operations = ops\<rparr>, s')
     \<and> length ps = unat count
     \<and> trace s' = trace s0 @ map (\<lambda>(i, p). Malloc (f i) p) (zip (indices 0 count) ps)
                      @ map Free (g ps)
     \<and> clock_reads s' = clock_reads s0 + 2"
proof -
  let ?s1 = "s0\<lparr>clock_reads := Suc (clock_reads s0)\<rparr>"
  obtain ps s2 where l:
    "foldl (\<lambda>acc i. push_back_malloc E (f i) acc) ([], ?s1) (indices 0 count) = ([] @ ps, s2)"
    "length ps = length (indices 0 count)"
    "trace s2 = trace ?s1 @ map (\<lambda>(i, p). Malloc (f i) p) (zip (indices 0 count) ps)"
    "clock_reads s2 = clock_reads ?s1"
    using malloc_loop [of E f "[]" ?s1 "indices 0 count"] by blast
  let ?s3 = "foldl (\<lambda>s ptr. free E ptr s) s2 (g ps)"
  let ?s4 = "?s3\<lparr>clock_reads := Suc (clock_reads ?s3)\<rparr>"
  have f3: "trace ?s3 = trace s2 @ map Free (g ps)" "clock_reads ?s3 = clock_reads s2"
    using free_loop [of E s2 "g ps"] by simp_all
  have r: "reserve m count = Inr ()"
    using assms by (simp add: reserve_def)
  have "(let (timer, s1) = Timer_init E s0
      in and_then (reserve m count) (\<lambda>_.
         let (ptrs, s2) = foldl (\<lambda>acc i. push_back_malloc E (f i) acc) ([], s1) (indices 0 count);
             s3 = foldl (\<lambda>s ptr. free E ptr s) s2 (g ptrs);
             (ms, s4) = elapsed_ms E timer s3
         in Inr (\<lparr>name = nm, duration_ms = ms, operations = ops\<rparr>, s4)))
     = Inr (\<lparr>name = nm,
              duration_ms = elapsed_between (env_now E (clock_reads s0))
                              (env_now E (Suc (clock_reads s0))),
              operations = ops\<rparr>, ?s4)"
    using l(1) l(4) f3(2) r
    by (simp add: Timer_init_eq and_then_def elapsed_ms_eq)
  moreover have "length ps = unat count"
    using l(2) by (simp add: length_indices)
  moreover have "trace ?s4 = trace s0 @ map (\<lambda>(i, p). Malloc (f i) p) (zip (indices 0 count) ps)
                      @ map Free (g ps)"
    using l(3) f3(1) by simp
  moreover have "clock_reads ?s4 = clock_reads s0 + 2"
    using l(4) f3(2) by simp
  ultimately show ?thesis by blast
qed

lemma small_spec:
  assumes "unat count \<le> ptr_vector_max_size E"
  shows "\<exists>ps s'. benchmark_small_allocations E count s =
       Inr (\<lparr>name = ''Small allocations (64 bytes)'',
              duration_ms = elapsed_between (env_now E (clock_reads s))
                              (env_now E (Suc (clock_reads s))),
              operations = count * 2\<rparr>, s')
     \<and> length ps = unat count
     \<and> trace s' = trace s @ map (Malloc 64) ps @ map Free ps
     \<and> clock_reads s' = clock_reads s + 2"
proof -
  obtain ps s' where h:
    "benchmark_small_allocations E count s =
       Inr (\<lparr>name = ''Small allocations (64 bytes)'',
              duration_ms = elapsed_between (env_now E (clock_reads s))
                              (env_now E (Suc (clock_reads s))),
              operations = count * 2\<rparr>, s')"
    "length ps = unat count"
    "trace s' = trace s @ map (\<lambda>(i, p). Malloc 64 p) (zip (indices 0 count) ps) @ map Free ps"
    "clock_reads s' = clock_reads s + 2"
    using raw_body [OF assms, of E s "\<lambda>_. 64" "\<lambda>ps. ps" "''Small allocations (64 bytes)''" "count * 2"]
    unfolding benchmark_small_allocations_def by blast
  have "map (\<lambda>(i, p). Malloc 64 p) (zip (indices 0 count) ps) = map (Malloc 64) ps"
    using h(2) by (intro map_const_zip) (simp add: length_indices)
  with h show ?thesis by auto
qed


lemma medium_spec:
  assumes "unat count \<le> ptr_vector_max_size E"
  shows "\<exists>ps s'. benchmark_medium_allocations E count s =
       Inr (\<lparr>name = ''Medium allocations (1KB)'',
              duration_ms = elapsed_between (env_now E (clock_reads s))
                              (env_now E (Suc (clock_reads s))),
              operations = count * 2\<rparr>, s')
     \<and> length ps = unat count
     \<and> trace s' = trace s @ map (Malloc 1024) ps @ map Free ps
     \<and> clock_reads s' = clock_reads s + 2"
proof -
  obtain ps s' where h:
    "benchmark_medium_allocations E count s =
       Inr (\<lparr>name = ''Medium allocations (1KB)'',
              duration_ms = elapsed_between (env_now E (clock_reads s))
                              (env_now E (Suc (clock_reads s))),
              operations = count * 2\<rparr>, s')"
    "length ps = unat count"
    "trace s' = trace s @ map (\<lambda>(i, p). Malloc 1024 p) (zip (indices 0 count) ps) @ map Free ps"
    "clock_reads s' = clock_reads s + 2"
    using raw_body [OF assms, of E s "\<lambda>_. 1024" "\<lambda>ps. ps" "''Medium allocations (1KB)''" "count * 2"]
    unfolding benchmark_medium_allocations_def by blast
  have "map (\<lambda>(i, p). Malloc 1024 p) (zip (indices 0 count) ps) = map (Malloc 1024) ps"
    using h(2) by (intro map_const_zip) (simp add: length_indices)
  with h show ?thesis by auto
qed

lemma large_spec:
  assumes "unat count \<le> ptr_vector_max_size E"
  shows "\<exists>ps s'. benchmark_large_allocations E count s =
       Inr (\<lparr>name = ''Large allocations (1MB)'',
              duration_ms = elapsed_between (env_now E (clock_reads s))
                              (env_now E (Suc (clock_reads s))),
              operations = count * 2\<rparr>, s')
     \<and> length ps = unat count
     \<and> trace s' = trace s @ map (Malloc (1024 * 1024)) ps @ map Free ps
     \<and> clock_reads s' = clock_reads s + 2"
proof -
  obtain ps s' where h:
    "benchmark_large_allocations E count s =
       Inr (\<lparr>name = ''Large allocations (1MB)'',
              duration_ms = elapsed_between (env_now E (clock_reads s))
                              (env_now E (Suc (clock_reads s))),
              operations = count * 2\<rparr>, s')"
    "length ps = unat count"
    "trace s' = trace s @ map (\<lambda>(i, p). Malloc (1024 * 1024) p) (zip (indices 0 count) ps)
                  @ map Free ps"
    "clock_reads s' = clock_reads s + 2"
    using raw_body [OF assms, of E s "\<lambda>_. 1024 * 1024" "\<lambda>ps. ps" "''Large allocations (1MB)''"
                      "count * 2"]
    unfolding benchmark_large_allocations_def by blast
  have "map (\<lambda>(i, p). Malloc (1024 * 1024) p) (zip (indices 0 count) ps)
          = map (Malloc (1024 * 1024)) ps"
    using h(2) by (intro map_const_zip) (simp add: length_indices)
  with h show ?thesis by auto
qed

lemma unat_index_mod:
  assumes "k < unat (count :: size_t)"
  shows "unat ((of_nat k :: size_t) mod 10) = k mod 10"
proof -
  have "k < 2 ^ 64"
    using assms unsigned_less [of count, where 'a = nat] by simp
  then have "unat (of_nat k :: size_t) = k"
    by (simp add: unat_of_nat)
  then show ?thesis
    by (simp add: unat_mod)
qed

lemma zip_indices_conv:
  assumes "length ps = unat count"
  shows "map (\<lambda>(i, p). Malloc (sizes ! unat (i mod 10)) p) (zip (indices 0 count) ps)
           = map (\<lambda>k. Malloc (sizes ! (k mod 10)) (ps ! k)) [0..<unat count]"
proof (rule nth_equalityI)
  show "length (map (\<lambda>(i, p). Malloc (sizes ! unat (i mod 10)) p) (zip (indices 0 count) ps))
          = length (map (\<lambda>k. Malloc (sizes ! (k mod 10)) (ps ! k)) [0..<unat count])"
    using assms by (simp add: length_indices)
next
  fix k
  assume "k < length (map (\<lambda>(i, p). Malloc (sizes ! unat (i mod 10)) p) (zip (indices 0 count) ps))"
  then have k: "k < unat count"
    using assms by (simp add: length_indices)
  then have "indices 0 count ! k = of_nat k"
    by (simp add: indices_def)
  then show "map (\<lambda>(i, p). Malloc (sizes ! unat (i mod 10)) p) (zip (indices 0 count) ps) ! k
          = map (\<lambda>k. Malloc (sizes ! (k mod 10)) (ps ! k)) [0..<unat count] ! k"
    using k assms unat_index_mod [OF k] by (simp add: length_indices)
qed

lemma mixed_spec:
  assumes "unat count \<le> ptr_vector_max_size E"
  shows "\<exists>ps s'. benchmark_mixed_sizes E count s =
       Inr (\<lparr>name = ''Mixed size allocations'',
              duration_ms = elapsed_between (env_now E (clock_reads s))
                              (env_now E (Suc (clock_reads s))),
              operations = count * 2\<rparr>, s')
     \<and> length ps = unat count
     \<and> trace s' = trace s @ map (\<lambda>k. Malloc (sizes ! (k mod 10)) (ps ! k)) [0..<unat count]
                     @ map Free (rev ps)
     \<and> clock_reads s' = clock_reads s + 2"
proof -
  obtain ps s' where h:
    "benchmark_mixed_sizes E count s =
       Inr (\<lparr>name = ''Mixed size allocations'',
              duration_ms = elapsed_between (env_now E (clock_reads s))
                              (env_now E (Suc (clock_reads s))),
              operations = count * 2\<rparr>, s')"
    "length ps = unat count"
    "trace s' = trace s @ map (\<lambda>(i, p). Malloc (sizes ! unat (i mod 10)) p) (zip (indices 0 count) ps)
                  @ map Free (rev ps)"
    "clock_reads s' = clock_reads s + 2"
    using raw_body [OF assms, of E s "\<lambda>i. sizes ! unat (i mod 10)" rev "''Mixed size allocations''"
                      "count * 2"]
    unfolding benchmark_mixed_sizes_def Let_def by blast
  show ?thesis
    using h zip_indices_conv [OF h(2)] by auto
qed

lemma trace_realloc:
  "trace (snd (realloc E p sz s)) = trace s @ [Realloc p sz (fst (realloc E p sz s))]"
  by (simp add: realloc_def split: prod.split)

lemma clock_realloc: "clock_reads (snd (realloc E p sz s)) = clock_reads s"
  by (simp add: realloc_def split: prod.split)

lemma realloc_loop_clock:
  "clock_reads (snd (foldl (\<lambda>acc i. let (ptr, s) = acc in realloc E ptr (64 * (i + 1)) s)
                       (p, s) xs)) = clock_reads s"
proof (induction xs rule: rev_induct)
  case Nil
  show ?case by simp
next
  case (snoc x xs)
  obtain q s' where l:
    "foldl (\<lambda>acc i. let (ptr, s) = acc in realloc E ptr (64 * (i + 1)) s) (p, s) xs = (q, s')"
    by (cases "foldl (\<lambda>acc i. let (ptr, s) = acc in realloc E ptr (64 * (i + 1)) s) (p, s) xs")
  with snoc have "clock_reads s' = clock_reads s" by simp
  with l show ?case by (simp add: clock_realloc)
qed

lemma reallocations_spec:
  "\<exists>s'. benchmark_reallocations E count s =
       (\<lparr>name = ''Reallocations'',
          duration_ms = elapsed_between (env_now E (clock_reads s))
                          (env_now E (Suc (clock_reads s))),
          operations = count\<rparr>, s')
     \<and> clock_reads s' = clock_reads s + 2"
proof -
  let ?s1 = "s\<lparr>clock_reads := Suc (clock_reads s)\<rparr>"
  obtain p0 s2 where m: "malloc E 64 ?s1 = (p0, s2)"
    by (cases "malloc E 64 ?s1")
  have c2: "clock_reads s2 = clock_reads ?s1"
    using clock_malloc [of E 64 ?s1] m by simp
  obtain p s3 where l:
    "foldl (\<lambda>acc i. let (ptr, s) = acc in realloc E ptr (64 * (i + 1)) s) (p0, s2) (indices 1 count)
       = (p, s3)"
    by (cases "foldl (\<lambda>acc i. let (ptr, s) = acc in realloc E ptr (64 * (i + 1)) s) (p0, s2)
                 (indices 1 count)")
  have c3: "clock_reads s3 = clock_reads s2"
    using realloc_loop_clock [of E p0 s2 "indices 1 count"] l by simp
  have c4: "clock_reads (free E p s3) = Suc (clock_reads s)"
    using c2 c3 by (simp add: clock_free)
  show ?thesis
    using m l c4
    by (simp add: benchmark_reallocations_def Timer_init_eq elapsed_ms_eq)
qed

lemma string_operations_spec:
  assumes "unat count \<le> string_vector_max_size E"
  shows "benchmark_string_operations E count s =
       Inr (\<lparr>name = ''String operations'',
              duration_ms = elapsed_between (env_now E (clock_reads s))
                              (env_now E (Suc (clock_reads s))),
              operations = count * 3\<rparr>,
            s\<lparr>clock_reads := clock_reads s + 2\<rparr>)"
  using assms
  by (simp add: benchmark_string_operations_def Timer_init_eq elapsed_ms_eq and_then_def
        reserve_def)

lemma growth_loop_eq:
  "length vec \<le> m \<Longrightarrow> growth_loop m xs vec =
     (if length vec + length xs \<le> m then Inr (vec @ map ucast xs) else Inl LengthError)"
  by (induction xs arbitrary: vec) (auto simp: push_back_def and_then_def)

lemma container_growth_spec:
  assumes "unat count \<le> int_vector_max_size E"
  shows "benchmark_container_growth E count s =
       Inr (\<lparr>name = ''Vector growth'',
              duration_ms = elapsed_between (env_now E (clock_reads s))
                              (env_now E (Suc (clock_reads s))),
              operations = count\<rparr>,
            s\<lparr>clock_reads := clock_reads s + 2\<rparr>)"
  using assms
  by (simp add: benchmark_container_growth_def Timer_init_eq elapsed_ms_eq and_then_def
        growth_loop_eq length_indices)

lemma container_growth_fail:
  assumes "int_vector_max_size E < unat count"
  shows "benchmark_container_growth E count s = Inl LengthError"
  using assms
  by (simp add: benchmark_container_growth_def Timer_init_eq and_then_def
        growth_loop_eq length_indices)

lemma sdiv_nonneg: "0 \<le> (x :: int) \<Longrightarrow> x sdiv 1000 = x div 1000"
  by (simp add: signed_divide_int_def sgn_if)

lemma elapsed_between_nonneg:
  assumes "t0 \<le> t1"
  shows "elapsed_between t0 t1 = Finite (real_of_int ((t1 - t0) div 1000) / 1000)"
    and "nonneg (elapsed_between t0 t1)"
proof -
  have "0 \<le> t1 - t0" using assms by simp
  then have d: "(t1 - t0) sdiv 1000 = (t1 - t0) div 1000"
    by (rule sdiv_nonneg)
  show "elapsed_between t0 t1 = Finite (real_of_int ((t1 - t0) div 1000) / 1000)"
    by (simp add: elapsed_between_def d)
  have "0 \<le> (t1 - t0) div 1000"
    using \<open>0 \<le> t1 - t0\<close> by (simp add: pos_imp_zdiv_nonneg_iff)
  then show "nonneg (elapsed_between t0 t1)"
    by (simp add: elapsed_between_def d)
qed

subsection \<open>Throughput of one result\<close>

lemma real_unat_pos: "(0 < real (unat (w :: size_t))) = (w \<noteq> 0)"
  by (metis of_nat_0_less_iff unat_gt_0)

lemma double_of_size_t_div_zero:
  "ddiv (double_of_size_t n) (Finite 0) = (if n = 0 then NaN else PosInf)"
proof (cases "n = 0")
  case True
  then show ?thesis by (simp add: double_of_size_t_def)
next
  case False
  then have "0 < real (unat n)" using real_unat_pos [of n] by blast
  with False show ?thesis
    unfolding double_of_size_t_def by (simp del: of_nat_unat)
qed

text \<open>
  C1 (amended). For a result whose \<open>duration_ms\<close> is a finite positive value \<open>d\<close>,
  \<open>ops_per_second\<close> is \<open>operations / d * 1000\<close>. There is no guard for a zero
  duration: when \<open>duration_ms\<close> is \<open>0\<close> the quotient is a division by zero, and
  \<open>ops_per_second\<close> is an infinity when \<open>operations\<close> is not \<open>0\<close> and NaN when it
  is \<open>0\<close>; it is never \<open>0\<close>.
\<close>

theorem ops_per_second_formula:
  assumes "duration_ms r = Finite d" and "0 \<le> d"
  shows "ops_per_second r =
     (if d = 0 then (if operations r = 0 then NaN else PosInf)
      else Finite (real (unat (operations r)) / d * 1000))"
proof (cases "d = 0")
  case True
  with assms show ?thesis
    by (simp add: ops_per_second_def double_of_size_t_div_zero)
next
  case False
  with assms show ?thesis
    by (simp add: ops_per_second_def double_of_size_t_def)
qed

theorem ops_per_second_formula_witness:
  "ops_per_second \<lparr>name = ''Vector growth'', duration_ms = Finite 4, operations = 10000\<rparr>
     = Finite 2500000
   \<and> ops_per_second \<lparr>name = ''Vector growth'', duration_ms = Finite 0, operations = 0\<rparr>
     = NaN"
  using ops_per_second_formula
          [of "\<lparr>name = ''Vector growth'', duration_ms = Finite 4, operations = 10000\<rparr>" 4]
        ops_per_second_formula
          [of "\<lparr>name = ''Vector growth'', duration_ms = Finite 0, operations = 0\<rparr>" 0]
  by simp

text \<open>
  C1 as stated fails: a result of 10000 operations with a duration of \<open>0\<close> milliseconds
  has the throughput \<open>+infinity\<close>, not \<open>0\<close>.
\<close>

theorem ops_per_second_zero_duration_counterexample:
  "ops_per_second \<lparr>name = ''Reallocations'', duration_ms = Finite 0, operations = 10000\<rparr>
     = PosInf
   \<and> ops_per_second \<lparr>name = ''Reallocations'', duration_ms = Finite 0, operations = 10000\<rparr>
     \<noteq> Finite 0"
  by (simp add: ops_per_second_def double_of_size_t_def)

subsection \<open>Null pointers in the raw-allocation workloads\<close>

text \<open>
  C2 (amended). In the small, medium and large workloads a null result of an allocation
  request does not stop the workload: whatever the allocator returns, for a \<open>count\<close>
  within the vector's \<^verbatim>\<open>max_size()\<close> the workload makes its \<open>count\<close> requests and
  completes, the deallocation pass calls \<^verbatim>\<open>free\<close> once on every non-null pointer that
  was returned, in allocation order, and \<open>operations\<close> is the fixed \<open>count * 2\<close>: a
  failed request counts like a successful one.
\<close>

theorem raw_allocations_null_result:
  assumes "unat count \<le> ptr_vector_max_size E"
  shows "(\<exists>ps fs r s'. benchmark_small_allocations E count s = Inr (r, s')
            \<and> length ps = unat count
            \<and> trace s' = trace s @ map (Malloc 64) ps @ map Free fs
            \<and> filter (\<lambda>p. p \<noteq> 0) fs = filter (\<lambda>p. p \<noteq> 0) ps
            \<and> operations r = count * 2)
       \<and> (\<exists>ps fs r s'. benchmark_medium_allocations E count s = Inr (r, s')
            \<and> length ps = unat count
            \<and> trace s' = trace s @ map (Malloc 1024) ps @ map Free fs
            \<and> filter (\<lambda>p. p \<noteq> 0) fs = filter (\<lambda>p. p \<noteq> 0) ps
            \<and> operations r = count * 2)
       \<and> (\<exists>ps fs r s'. benchmark_large_allocations E count s = Inr (r, s')
            \<and> length ps = unat count
            \<and> trace s' = trace s @ map (Malloc (1024 * 1024)) ps @ map Free fs
            \<and> filter (\<lambda>p. p \<noteq> 0) fs = filter (\<lambda>p. p \<noteq> 0) ps
            \<and> operations r = count * 2)"
proof (intro conjI)
  show "\<exists>ps fs r s'. benchmark_small_allocations E count s = Inr (r, s')
            \<and> length ps = unat count
            \<and> trace s' = trace s @ map (Malloc 64) ps @ map Free fs
            \<and> filter (\<lambda>p. p \<noteq> 0) fs = filter (\<lambda>p. p \<noteq> 0) ps
            \<and> operations r = count * 2"
    using small_spec [OF assms, of s] by force
  show "\<exists>ps fs r s'. benchmark_medium_allocations E count s = Inr (r, s')
            \<and> length ps = unat count
            \<and> trace s' = trace s @ map (Malloc 1024) ps @ map Free fs
            \<and> filter (\<lambda>p. p \<noteq> 0) fs = filter (\<lambda>p. p \<noteq> 0) ps
            \<and> operations r = count * 2"
    using medium_spec [OF assms, of s] by force
  show "\<exists>ps fs r s'. benchmark_large_allocations E count s = Inr (r, s')
            \<and> length ps = unat count
            \<and> trace s' = trace s @ map (Malloc (1024 * 1024)) ps @ map Free fs
            \<and> filter (\<lambda>p. p \<noteq> 0) fs = filter (\<lambda>p. p \<noteq> 0) ps
            \<and> operations r = count * 2"
    using large_spec [OF assms, of s] by force
qed

text \<open>
  The hypothesis of C2 holds for two iterations against the exhausted allocator.
\<close>

theorem raw_allocations_null_result_witness:
  "unat (2 :: size_t) \<le> ptr_vector_max_size null_env
   \<and> (\<exists>ps fs r s'. benchmark_small_allocations null_env 2 init_state = Inr (r, s')
            \<and> length ps = unat (2 :: size_t)
            \<and> trace s' = trace init_state @ map (Malloc 64) ps @ map Free fs
            \<and> filter (\<lambda>p. p \<noteq> 0) fs = filter (\<lambda>p. p \<noteq> 0) ps
            \<and> operations r = 2 * 2)"
proof -
  have h: "unat (2 :: size_t) \<le> ptr_vector_max_size null_env"
    by (simp add: null_env_def)
  show ?thesis
    using h raw_allocations_null_result [OF h, where s = init_state] by blast
qed

lemma indices_0_2: "indices 0 2 = [0, 1]"
  by (simp add: indices_def upt_rec)

text \<open>
  C2 as stated fails: with an allocator that returns null for both of two requests, the
  deallocation pass calls \<^verbatim>\<open>free\<close> on the null pointer twice and the result
  reports 4 operations, although no allocation succeeded.
\<close>

theorem small_allocations_null_counterexample:
  "benchmark_small_allocations null_env 2 init_state =
     Inr (\<lparr>name = ''Small allocations (64 bytes)'', duration_ms = Finite (1 / 1000),
            operations = 4\<rparr>,
          \<lparr>world = 4096, trace = [Malloc 64 0, Malloc 64 0, Free 0, Free 0],
            clock_reads = 2\<rparr>)"
  by (simp add: benchmark_small_allocations_def Timer_init_eq elapsed_ms_eq and_then_def
        reserve_def indices_0_2 push_back_malloc_def malloc_def free_def null_env_def
        init_state_def elapsed_between_def)

subsection \<open>The reallocation workload at one and at zero iterations\<close>

text \<open>
  C8. With \<open>N = 1\<close> the reallocation workload makes no call of \<^verbatim>\<open>realloc\<close>: its
  calls into the allocator are one \<^verbatim>\<open>malloc(64)\<close> and one \<^verbatim>\<open>free\<close> of the
  pointer that request returned, and it reports \<open>operations = 1\<close>.
\<close>

theorem reallocations_one:
  "\<exists>p ms s'. benchmark_reallocations E 1 s =
       (\<lparr>name = ''Reallocations'', duration_ms = ms, operations = 1\<rparr>, s')
     \<and> trace s' = trace s @ [Malloc 64 p, Free p]"
  by (simp add: benchmark_reallocations_def Timer_init_eq elapsed_ms_eq indices_def
        malloc_def free_def split: prod.split)

text \<open>
  C9. With \<open>N = 0\<close> the reallocation workload still makes one \<^verbatim>\<open>malloc(64)\<close> and
  one \<^verbatim>\<open>free\<close> of the returned pointer, and it reports \<open>operations = 0\<close>.
\<close>

theorem reallocations_zero:
  "\<exists>p ms s'. benchmark_reallocations E 0 s =
       (\<lparr>name = ''Reallocations'', duration_ms = ms, operations = 0\<rparr>, s')
     \<and> trace s' = trace s @ [Malloc 64 p, Free p]"
  by (simp add: benchmark_reallocations_def Timer_init_eq elapsed_ms_eq indices_def
        malloc_def free_def split: prod.split)

subsection \<open>The mixed-sizes workload\<close>

text \<open>
  C6. For every \<open>N\<close> within the vector's \<^verbatim>\<open>max_size()\<close>, the mixed-sizes workload
  makes \<open>N\<close> allocation requests, the \<open>i\<close>-th of the size at index \<open>i mod 10\<close> of the
  table 16, 32, 64, 128, 256, 512, 1024, 2048, 4096, 8192, and then frees the returned
  pointers in the reverse of the allocation order.
\<close>

theorem mixed_sizes_cycle_and_reverse_free:
  assumes "unat N \<le> ptr_vector_max_size E"
  shows "\<exists>ps r s'. benchmark_mixed_sizes E N s = Inr (r, s')
     \<and> length ps = unat N
     \<and> trace s' = trace s
         @ map (\<lambda>i. Malloc ([16, 32, 64, 128, 256, 512, 1024, 2048, 4096, 8192] ! (i mod 10))
                       (ps ! i)) [0..<unat N]
         @ map Free (rev ps)"
  using mixed_spec [OF assms, of s] unfolding sizes_def by force


text \<open>
  The hypothesis of C6 holds for twelve iterations against the bump allocator.
\<close>

theorem mixed_sizes_cycle_and_reverse_free_witness:
  "unat (12 :: size_t) \<le> ptr_vector_max_size bump_env
   \<and> (\<exists>ps r s'. benchmark_mixed_sizes bump_env 12 init_state = Inr (r, s')
     \<and> length ps = unat (12 :: size_t)
     \<and> trace s' = trace init_state
         @ map (\<lambda>i. Malloc ([16, 32, 64, 128, 256, 512, 1024, 2048, 4096, 8192] ! (i mod 10))
                       (ps ! i)) [0..<unat (12 :: size_t)]
         @ map Free (rev ps))"
proof -
  have h: "unat (12 :: size_t) \<le> ptr_vector_max_size bump_env"
    by (simp add: bump_env_def)
  show ?thesis
    using h mixed_sizes_cycle_and_reverse_free [OF h, where s = init_state] by blast
qed

subsection \<open>The stopwatch\<close>

lemma sdiv_1000:
  "(x :: int) sdiv 1000 = (if 0 \<le> x then x div 1000 else - ((- x) div 1000))"
  by (simp add: signed_divide_int_def sgn_if)

lemma div_1000_bounds:
  "0 \<le> (x :: int) \<Longrightarrow> 0 \<le> x div 1000"
  "(x :: int) div 1000 * 1000 \<le> x"
  "(x :: int) < x div 1000 * 1000 + 1000"
proof -
  have eq: "x = x div 1000 * 1000 + x mod 1000"
    by simp
  have lo: "0 \<le> x mod 1000" and hi: "x mod 1000 < 1000"
    by simp_all
  show "x div 1000 * 1000 \<le> x"
    using eq lo by linarith
  show "x < x div 1000 * 1000 + 1000"
    using eq hi by linarith
  show "0 \<le> x \<Longrightarrow> 0 \<le> x div 1000"
    by (simp add: pos_imp_zdiv_nonneg_iff)
qed

lemma sdiv_1000_nonneg:
  assumes "0 \<le> (x :: int)"
  shows "0 \<le> x sdiv 1000 \<and> x sdiv 1000 * 1000 \<le> x \<and> x < x sdiv 1000 * 1000 + 1000"
proof -
  have "x sdiv 1000 = x div 1000"
    using assms by (simp add: sdiv_1000)
  then show ?thesis
    using div_1000_bounds [of x] assms by simp
qed

lemma sdiv_1000_neg:
  assumes "(x :: int) < 0"
  shows "x sdiv 1000 \<le> 0 \<and> x sdiv 1000 * 1000 - 1000 < x \<and> x \<le> x sdiv 1000 * 1000"
proof -
  let ?q = "(- x) div 1000"
  have k: "x sdiv 1000 = - ?q"
    using assms by (simp add: sdiv_1000)
  have q0: "0 \<le> ?q" and q1: "?q * 1000 \<le> - x" and q2: "- x < ?q * 1000 + 1000"
    using div_1000_bounds [of "- x"] assms by simp_all
  have "- ?q * 1000 - 1000 < x"
    using q2 by linarith
  moreover have "x \<le> - ?q * 1000"
    using q1 by simp
  ultimately show ?thesis
    unfolding k using q0 by simp
qed


lemma nonneg_elapsed_between: "nonneg (elapsed_between t0 t1) = (- 1000 < t1 - t0)"
proof (cases "0 \<le> t1 - t0")
  case True
  then have "0 \<le> (t1 - t0) sdiv 1000"
    using sdiv_1000_nonneg [of "t1 - t0"] by simp
  with True show ?thesis
    by (simp add: elapsed_between_def)
next
  case False
  then have n: "t1 - t0 < 0" by simp
  have b: "(t1 - t0) sdiv 1000 \<le> 0" "(t1 - t0) sdiv 1000 * 1000 - 1000 < t1 - t0"
    "t1 - t0 \<le> (t1 - t0) sdiv 1000 * 1000"
    using sdiv_1000_neg [OF n] by simp_all
  have "(0 \<le> (t1 - t0) sdiv 1000) = (- 1000 < t1 - t0)"
    using b by linarith
  then show ?thesis
    by (simp add: elapsed_between_def)
qed

lemma sdiv_1000_zero:
  assumes "- 1000 < (x :: int)" and "x < 1000"
  shows "x sdiv 1000 = 0"
proof (cases "0 \<le> x")
  case True
  then show ?thesis
    using sdiv_1000_nonneg [OF True] assms by linarith
next
  case False
  then have "x < 0" by simp
  then show ?thesis
    using sdiv_1000_neg [of x] assms by linarith
qed

text \<open>
  C10 (amended). \<^verbatim>\<open>elapsed_ms\<close> truncates the interval between the timer's start and
  the reading of the clock towards zero to whole microseconds before it converts to
  milliseconds, so the reported duration is \<open>k * 0.001\<close> for an integer \<open>k\<close>: the whole
  microseconds of the interval, with the sign of the interval. The duration is
  non-negative exactly when the clock has not gone back by a microsecond or more since
  the start, hence whenever the clock has not gone back at all; the code reads
  \<^verbatim>\<open>high_resolution_clock\<close> and does not check. An interval shorter than one
  microsecond, in either direction, is reported as exactly \<open>0\<close>.
\<close>

theorem elapsed_ms_whole_microseconds:
  "(\<exists>k :: int. fst (elapsed_ms E timer s) = Finite (real_of_int k * (1 / 1000))
       \<and> (0 \<le> env_now E (clock_reads s) - start timer
            \<longrightarrow> 0 \<le> k \<and> k * 1000 \<le> env_now E (clock_reads s) - start timer
                \<and> env_now E (clock_reads s) - start timer < k * 1000 + 1000)
       \<and> (env_now E (clock_reads s) - start timer < 0
            \<longrightarrow> k \<le> 0 \<and> k * 1000 - 1000 < env_now E (clock_reads s) - start timer
                \<and> env_now E (clock_reads s) - start timer \<le> k * 1000))
   \<and> nonneg (fst (elapsed_ms E timer s)) = (- 1000 < env_now E (clock_reads s) - start timer)
   \<and> (- 1000 < env_now E (clock_reads s) - start timer
        \<and> env_now E (clock_reads s) - start timer < 1000
        \<longrightarrow> fst (elapsed_ms E timer s) = Finite 0)"
proof -
  let ?d = "env_now E (clock_reads s) - start timer"
  let ?k = "?d sdiv 1000"
  have e: "fst (elapsed_ms E timer s) = Finite (real_of_int ?k * (1 / 1000))"
    by (simp add: elapsed_ms_eq elapsed_between_def)
  have pos: "0 \<le> ?d \<longrightarrow> 0 \<le> ?k \<and> ?k * 1000 \<le> ?d \<and> ?d < ?k * 1000 + 1000"
    using sdiv_1000_nonneg [of ?d] by blast
  have neg: "?d < 0 \<longrightarrow> ?k \<le> 0 \<and> ?k * 1000 - 1000 < ?d \<and> ?d \<le> ?k * 1000"
    using sdiv_1000_neg [of ?d] by blast
  have n: "nonneg (fst (elapsed_ms E timer s)) = (- 1000 < ?d)"
    using nonneg_elapsed_between [of "start timer" "env_now E (clock_reads s)"]
    by (simp add: elapsed_ms_eq)
  have z: "- 1000 < ?d \<and> ?d < 1000 \<longrightarrow> fst (elapsed_ms E timer s) = Finite 0"
  proof
    assume "- 1000 < ?d \<and> ?d < 1000"
    then have "?k = 0"
      using sdiv_1000_zero [of ?d] by blast
    with e show "fst (elapsed_ms E timer s) = Finite 0" by simp
  qed
  have ex: "\<exists>k :: int. fst (elapsed_ms E timer s) = Finite (real_of_int k * (1 / 1000))
       \<and> (0 \<le> ?d \<longrightarrow> 0 \<le> k \<and> k * 1000 \<le> ?d \<and> ?d < k * 1000 + 1000)
       \<and> (?d < 0 \<longrightarrow> k \<le> 0 \<and> k * 1000 - 1000 < ?d \<and> ?d \<le> k * 1000)"
    using e pos neg by (intro exI [of _ ?k] conjI)
  from ex n z show ?thesis by (intro conjI)
qed


text \<open>
  The cases of C10 at two inputs: a timer started at 1000 ns and read at 1500 ns, and a
  timer started at 0 ns and read at -1500 ns.
\<close>

theorem elapsed_ms_whole_microseconds_witness:
  "fst (elapsed_ms bump_env \<lparr>start = 1000\<rparr> (init_state\<lparr>clock_reads := 1\<rparr>)) = Finite 0
   \<and> nonneg (fst (elapsed_ms bump_env \<lparr>start = 1000\<rparr> (init_state\<lparr>clock_reads := 1\<rparr>)))
   \<and> (\<exists>k :: int. fst (elapsed_ms backward_env \<lparr>start = 0\<rparr> (init_state\<lparr>clock_reads := 1\<rparr>))
                     = Finite (real_of_int k * (1 / 1000))
          \<and> k \<le> 0 \<and> k * 1000 - 1000 < - 1500 \<and> - 1500 \<le> k * 1000)
   \<and> \<not> nonneg (fst (elapsed_ms backward_env \<lparr>start = 0\<rparr> (init_state\<lparr>clock_reads := 1\<rparr>)))"
proof -
  have d1: "env_now bump_env (clock_reads (init_state\<lparr>clock_reads := 1\<rparr>))
              - start \<lparr>start = 1000\<rparr> = 500"
    by (simp add: bump_env_def init_state_def)
  have d2: "env_now backward_env (clock_reads (init_state\<lparr>clock_reads := 1\<rparr>))
              - start \<lparr>start = 0\<rparr> = - 1500"
    by (simp add: backward_env_def init_state_def)
  show ?thesis
    using elapsed_ms_whole_microseconds
            [of bump_env "\<lparr>start = 1000\<rparr>" "init_state\<lparr>clock_reads := 1\<rparr>"]
          elapsed_ms_whole_microseconds
            [of backward_env "\<lparr>start = 0\<rparr>" "init_state\<lparr>clock_reads := 1\<rparr>"]
    unfolding d1 d2 by simp
qed

text \<open>
  C10 as stated fails: when the clock is set back by 1500 ns between the construction of
  the timer and the call of \<^verbatim>\<open>elapsed_ms\<close>, the reported duration is \<open>-0.001\<close>, which
  is negative.
\<close>

theorem elapsed_ms_backward_clock_counterexample:
  "fst (elapsed_ms backward_env (fst (Timer_init backward_env init_state))
          (snd (Timer_init backward_env init_state))) = Finite (- (1 / 1000))
   \<and> \<not> nonneg (Finite (- (1 / 1000)))"
  by (simp add: Timer_init_eq elapsed_ms_eq elapsed_between_def backward_env_def
        init_state_def sdiv_1000)

subsection \<open>The totals and the average of a run\<close>

lemma totals_foldl:
  "map duration_ms rs = map Finite ds \<Longrightarrow>
   foldl (\<lambda>acc result. let (total_time, total_ops) = acc
                        in (dadd total_time (duration_ms result), total_ops + operations result))
     (Finite a, w) rs
   = (Finite (a + sum_list ds), w + sum_list (map operations rs))"
proof (induction rs arbitrary: a w ds)
  case Nil
  then show ?case by simp
next
  case (Cons r rs)
  then obtain d ds' where ds: "ds = d # ds'" "duration_ms r = Finite d"
    "map duration_ms rs = map Finite ds'"
    by (cases ds) auto
  show ?case
    using Cons.IH [OF ds(3), of "a + d" "w + operations r"] ds(1,2)
    by (simp add: add.assoc)
qed

lemma unat_sum_list:
  "unat (sum_list ws :: size_t) = sum_list (map unat ws) mod 2 ^ 64"
proof (induction ws)
  case Nil
  show ?case by simp
next
  case (Cons w ws)
  have "unat (w + sum_list ws) = (unat w + unat (sum_list ws)) mod 2 ^ 64"
    by (simp add: unat_word_ariths)
  also have "\<dots> = (unat w + sum_list (map unat ws) mod 2 ^ 64) mod 2 ^ 64"
    using Cons by simp
  also have "\<dots> = (unat w + sum_list (map unat ws)) mod 2 ^ 64"
    by (simp add: mod_add_right_eq)
  finally show ?case by simp
qed

text \<open>
  C5 (amended). For every sequence of results with finite durations, the runner's
  \<open>total_time\<close> is the sum of the \<open>duration_ms\<close> and \<open>total_ops\<close> the sum of the
  \<open>operations\<close> (a \<^verbatim>\<open>size_t\<close> sum, hence modulo \<open>2 ^ 64\<close>), and the average is
  \<open>total_ops / total_time * 1000\<close>. There is no guard for a zero total: when
  \<open>total_time\<close> is \<open>0\<close> the average is an infinity when \<open>total_ops\<close> is not \<open>0\<close> and
  NaN when it is \<open>0\<close>.
\<close>

theorem report_totals_and_average:
  assumes "map duration_ms rs = map Finite ds"
  shows "results (report rs) = rs
     \<and> total_time (report rs) = Finite (sum_list ds)
     \<and> total_ops (report rs) = sum_list (map operations rs)
     \<and> unat (total_ops (report rs)) = sum_list (map (\<lambda>r. unat (operations r)) rs) mod 2 ^ 64
     \<and> average (report rs) =
         (if sum_list ds = 0 then (if total_ops (report rs) = 0 then NaN else PosInf)
          else Finite (real (unat (total_ops (report rs))) / sum_list ds * 1000))"
proof -
  have t: "totals rs = (Finite (sum_list ds), sum_list (map operations rs))"
    using totals_foldl [OF assms, of 0 0] by (simp add: totals_def)
  have 1: "results (report rs) = rs"
    by (simp add: report_def split: prod.split)
  have 2: "total_time (report rs) = Finite (sum_list ds)"
    using t by (simp add: report_def)
  have 3: "total_ops (report rs) = sum_list (map operations rs)"
    using t by (simp add: report_def)
  have 4: "unat (total_ops (report rs)) = sum_list (map (\<lambda>r. unat (operations r)) rs) mod 2 ^ 64"
    unfolding 3 using unat_sum_list [of "map operations rs"] by (simp add: comp_def)
  have a: "average (report rs) =
      dmul (ddiv (double_of_size_t (sum_list (map operations rs))) (Finite (sum_list ds)))
        (Finite 1000)"
    using t by (simp add: report_def)
  have 5: "average (report rs) =
         (if sum_list ds = 0 then (if total_ops (report rs) = 0 then NaN else PosInf)
          else Finite (real (unat (total_ops (report rs))) / sum_list ds * 1000))"
  proof (cases "sum_list ds = 0")
    case True
    then show ?thesis
      unfolding a 3 by (simp add: double_of_size_t_div_zero)
  next
    case False
    then show ?thesis
      unfolding a 3 by (simp add: double_of_size_t_def)
  qed
  from 1 2 3 4 5 show ?thesis by blast
qed

text \<open>
  The hypothesis of C5 holds for two results of 3 and 1 milliseconds.
\<close>

theorem report_totals_and_average_witness:
  "results (report [\<lparr>name = ''Reallocations'', duration_ms = Finite 3, operations = 10000\<rparr>,
                    \<lparr>name = ''Vector growth'', duration_ms = Finite 1, operations = 10000\<rparr>])
     = [\<lparr>name = ''Reallocations'', duration_ms = Finite 3, operations = 10000\<rparr>,
        \<lparr>name = ''Vector growth'', duration_ms = Finite 1, operations = 10000\<rparr>]
   \<and> total_time (report [\<lparr>name = ''Reallocations'', duration_ms = Finite 3, operations = 10000\<rparr>,
                    \<lparr>name = ''Vector growth'', duration_ms = Finite 1, operations = 10000\<rparr>])
     = Finite 4
   \<and> total_ops (report [\<lparr>name = ''Reallocations'', duration_ms = Finite 3, operations = 10000\<rparr>,
                    \<lparr>name = ''Vector growth'', duration_ms = Finite 1, operations = 10000\<rparr>])
     = 20000
   \<and> average (report [\<lparr>name = ''Reallocations'', duration_ms = Finite 3, operations = 10000\<rparr>,
                    \<lparr>name = ''Vector growth'', duration_ms = Finite 1, operations = 10000\<rparr>])
     = Finite 5000000"
  using report_totals_and_average
    [of "[\<lparr>name = ''Reallocations'', duration_ms = Finite 3, operations = 10000\<rparr>,
          \<lparr>name = ''Vector growth'', duration_ms = Finite 1, operations = 10000\<rparr>]" "[3, 1]"]
  by simp

text \<open>
  C5 as stated fails: for two results of duration \<open>0\<close> with one operation each, the
  total duration is \<open>0\<close> and the average is \<open>+infinity\<close>, not \<open>0\<close>.
\<close>

theorem report_zero_total_counterexample:
  "total_time (report [\<lparr>name = ''Reallocations'', duration_ms = Finite 0, operations = 1\<rparr>,
                       \<lparr>name = ''Vector growth'', duration_ms = Finite 0, operations = 1\<rparr>])
     = Finite 0
   \<and> average (report [\<lparr>name = ''Reallocations'', duration_ms = Finite 0, operations = 1\<rparr>,
                      \<lparr>name = ''Vector growth'', duration_ms = Finite 0, operations = 1\<rparr>])
     = PosInf
   \<and> average (report [\<lparr>name = ''Reallocations'', duration_ms = Finite 0, operations = 1\<rparr>,
                      \<lparr>name = ''Vector growth'', duration_ms = Finite 0, operations = 1\<rparr>])
     \<noteq> Finite 0"
  by (simp add: report_def totals_def double_of_size_t_def)

subsection \<open>The operation counts\<close>

lemma unat_times_2:
  assumes "unat (n :: size_t) < 2 ^ 63"
  shows "unat (n * 2) = 2 * unat n"
proof -
  have "unat n * unat (2 :: size_t) < 2 ^ LENGTH(64)"
    using assms by simp
  then have "unat (n * 2) = unat n * unat (2 :: size_t)"
    by (simp only: unat_mult_lem)
  then show ?thesis by simp
qed

lemma unat_times_3:
  assumes "3 * unat (n :: size_t) < 2 ^ 64"
  shows "unat (n * 3) = 3 * unat n"
proof -
  have "unat n * unat (3 :: size_t) < 2 ^ LENGTH(64)"
    using assms by simp
  then have "unat (n * 3) = unat n * unat (3 :: size_t)"
    by (simp only: unat_mult_lem)
  then show ?thesis by simp
qed

lemma small_operations:
  assumes "ptr_vector_max_size E < 2 ^ 63"
  shows "case benchmark_small_allocations E N s of
           Inl e \<Rightarrow> ptr_vector_max_size E < unat N
         | Inr (r, s') \<Rightarrow> unat (operations r) = 2 * unat N"
proof (cases "unat N \<le> ptr_vector_max_size E")
  case True
  then have "unat N < 2 ^ 63" using assms by simp
  then show ?thesis
    using small_spec [OF True, of s] by (auto simp: unat_times_2)
next
  case False
  then have "benchmark_small_allocations E N s = Inl LengthError"
    by (simp add: benchmark_small_allocations_def Timer_init_eq and_then_def reserve_def)
  with False show ?thesis by simp
qed

lemma medium_operations:
  assumes "ptr_vector_max_size E < 2 ^ 63"
  shows "case benchmark_medium_allocations E N s of
           Inl e \<Rightarrow> ptr_vector_max_size E < unat N
         | Inr (r, s') \<Rightarrow> unat (operations r) = 2 * unat N"
proof (cases "unat N \<le> ptr_vector_max_size E")
  case True
  then have "unat N < 2 ^ 63" using assms by simp
  then show ?thesis
    using medium_spec [OF True, of s] by (auto simp: unat_times_2)
next
  case False
  then have "benchmark_medium_allocations E N s = Inl LengthError"
    by (simp add: benchmark_medium_allocations_def Timer_init_eq and_then_def reserve_def)
  with False show ?thesis by simp
qed

lemma large_operations:
  assumes "ptr_vector_max_size E < 2 ^ 63"
  shows "case benchmark_large_allocations E N s of
           Inl e \<Rightarrow> ptr_vector_max_size E < unat N
         | Inr (r, s') \<Rightarrow> unat (operations r) = 2 * unat N"
proof (cases "unat N \<le> ptr_vector_max_size E")
  case True
  then have "unat N < 2 ^ 63" using assms by simp
  then show ?thesis
    using large_spec [OF True, of s] by (auto simp: unat_times_2)
next
  case False
  then have "benchmark_large_allocations E N s = Inl LengthError"
    by (simp add: benchmark_large_allocations_def Timer_init_eq and_then_def reserve_def)
  with False show ?thesis by simp
qed

lemma mixed_operations:
  assumes "ptr_vector_max_size E < 2 ^ 63"
  shows "case benchmark_mixed_sizes E N s of
           Inl e \<Rightarrow> ptr_vector_max_size E < unat N
         | Inr (r, s') \<Rightarrow> unat (operations r) = 2 * unat N"
proof (cases "unat N \<le> ptr_vector_max_size E")
  case True
  then have "unat N < 2 ^ 63" using assms by simp
  then show ?thesis
    using mixed_spec [OF True, of s] by (auto simp: unat_times_2)
next
  case False
  then have "benchmark_mixed_sizes E N s = Inl LengthError"
    by (simp add: benchmark_mixed_sizes_def Timer_init_eq and_then_def reserve_def)
  with False show ?thesis by simp
qed

lemma string_operations_count:
  assumes "3 * string_vector_max_size E < 2 ^ 64"
  shows "case benchmark_string_operations E N s of
           Inl e \<Rightarrow> string_vector_max_size E < unat N
         | Inr (r, s') \<Rightarrow> unat (operations r) = 3 * unat N"
proof (cases "unat N \<le> string_vector_max_size E")
  case True
  then have "3 * unat N < 2 ^ 64" using assms by simp
  then show ?thesis
    using string_operations_spec [OF True, of s] by (simp add: unat_times_3)
next
  case False
  then have "benchmark_string_operations E N s = Inl LengthError"
    by (simp add: benchmark_string_operations_def Timer_init_eq and_then_def reserve_def)
  with False show ?thesis by simp
qed

lemma container_growth_operations:
  "case benchmark_container_growth E N s of
     Inl e \<Rightarrow> int_vector_max_size E < unat N
   | Inr (r, s') \<Rightarrow> unat (operations r) = unat N"
proof (cases "unat N \<le> int_vector_max_size E")
  case True
  then show ?thesis
    using container_growth_spec [OF True, of s] by simp
next
  case False
  then show ?thesis
    using container_growth_fail [of E N s] by simp
qed

text \<open>
  C4. For every iteration count \<open>N\<close>, each workload that returns a result reports the
  \<open>operations\<close> of its formula, read as natural numbers: \<open>2N\<close> for the small, medium,
  large (\<open>N\<close> being its own iteration count) and mixed workloads, \<open>N\<close> for the
  reallocations, \<open>3N\<close> for the string operations and \<open>N\<close> for the container growth.
  A workload fails to return only when \<open>N\<close> exceeds the \<^verbatim>\<open>max_size()\<close> of its vector;
  the reallocation workload always returns. The hypotheses bound \<^verbatim>\<open>max_size()\<close> as
  every implementation does (a vector of that many elements is addressable), which is
  why \<open>count * 2\<close> and \<open>count * 3\<close> do not wrap around.
\<close>

theorem operations_follow_formulas:
  assumes "ptr_vector_max_size E < 2 ^ 63" and "3 * string_vector_max_size E < 2 ^ 64"
  shows "(case benchmark_small_allocations E N s of
            Inl e \<Rightarrow> ptr_vector_max_size E < unat N
          | Inr (r, s') \<Rightarrow> unat (operations r) = 2 * unat N)
       \<and> (case benchmark_medium_allocations E N s of
            Inl e \<Rightarrow> ptr_vector_max_size E < unat N
          | Inr (r, s') \<Rightarrow> unat (operations r) = 2 * unat N)
       \<and> (case benchmark_large_allocations E N s of
            Inl e \<Rightarrow> ptr_vector_max_size E < unat N
          | Inr (r, s') \<Rightarrow> unat (operations r) = 2 * unat N)
       \<and> (case benchmark_mixed_sizes E N s of
            Inl e \<Rightarrow> ptr_vector_max_size E < unat N
          | Inr (r, s') \<Rightarrow> unat (operations r) = 2 * unat N)
       \<and> unat (operations (fst (benchmark_reallocations E N s))) = unat N
       \<and> (case benchmark_string_operations E N s of
            Inl e \<Rightarrow> string_vector_max_size E < unat N
          | Inr (r, s') \<Rightarrow> unat (operations r) = 3 * unat N)
       \<and> (case benchmark_container_growth E N s of
            Inl e \<Rightarrow> int_vector_max_size E < unat N
          | Inr (r, s') \<Rightarrow> unat (operations r) = unat N)"
proof -
  have "unat (operations (fst (benchmark_reallocations E N s))) = unat N"
    using reallocations_spec [of E N s] by auto
  then show ?thesis
    using small_operations [OF assms(1), of N s] medium_operations [OF assms(1), of N s]
      large_operations [OF assms(1), of N s] mixed_operations [OF assms(1), of N s]
      string_operations_count [OF assms(2), of N s] container_growth_operations [of E N s]
    by blast
qed

text \<open>
  The hypotheses of C4 hold for the limits of the bump environment.
\<close>

theorem operations_follow_formulas_witness:
  "ptr_vector_max_size bump_env < 2 ^ 63 \<and> 3 * string_vector_max_size bump_env < 2 ^ 64
   \<and> (case benchmark_small_allocations bump_env 10000 init_state of
            Inl e \<Rightarrow> ptr_vector_max_size bump_env < unat (10000 :: size_t)
          | Inr (r, s') \<Rightarrow> unat (operations r) = 2 * unat (10000 :: size_t))
   \<and> (case benchmark_string_operations bump_env 10000 init_state of
            Inl e \<Rightarrow> string_vector_max_size bump_env < unat (10000 :: size_t)
          | Inr (r, s') \<Rightarrow> unat (operations r) = 3 * unat (10000 :: size_t))
   \<and> unat (operations (fst (benchmark_reallocations bump_env 10000 init_state)))
       = unat (10000 :: size_t)"
proof -
  have h1: "ptr_vector_max_size bump_env < 2 ^ 63"
    by (simp add: bump_env_def)
  have h2: "3 * string_vector_max_size bump_env < 2 ^ 64"
    by (simp add: bump_env_def)
  show ?thesis
    using h1 h2 operations_follow_formulas [OF h1 h2, of 10000 init_state] by blast
qed

subsection \<open>The iteration counts of the run\<close>

lemma run_workloads_spec:
  assumes p: "unat N \<le> ptr_vector_max_size E"
    and st: "unat N \<le> string_vector_max_size E"
    and iv: "unat N \<le> int_vector_max_size E"
  shows "\<exists>s1 s2 s3 s4 s5 s6 s7 ps1 ps2 ps3 ps4.
      benchmark_small_allocations E N s =
        Inr (\<lparr>name = ''Small allocations (64 bytes)'', duration_ms = workload_duration E s,
               operations = N * 2\<rparr>, s1)
    \<and> benchmark_medium_allocations E N s1 =
        Inr (\<lparr>name = ''Medium allocations (1KB)'', duration_ms = workload_duration E s1,
               operations = N * 2\<rparr>, s2)
    \<and> benchmark_large_allocations E (N div 10) s2 =
        Inr (\<lparr>name = ''Large allocations (1MB)'', duration_ms = workload_duration E s2,
               operations = N div 10 * 2\<rparr>, s3)
    \<and> benchmark_mixed_sizes E N s3 =
        Inr (\<lparr>name = ''Mixed size allocations'', duration_ms = workload_duration E s3,
               operations = N * 2\<rparr>, s4)
    \<and> benchmark_reallocations E N s4 =
        (\<lparr>name = ''Reallocations'', duration_ms = workload_duration E s4,
           operations = N\<rparr>, s5)
    \<and> benchmark_string_operations E N s5 =
        Inr (\<lparr>name = ''String operations'', duration_ms = workload_duration E s5,
               operations = N * 3\<rparr>, s6)
    \<and> benchmark_container_growth E N s6 =
        Inr (\<lparr>name = ''Vector growth'', duration_ms = workload_duration E s6,
               operations = N\<rparr>, s7)
    \<and> run_workloads E N s =
        Inr ([\<lparr>name = ''Small allocations (64 bytes)'', duration_ms = workload_duration E s,
                operations = N * 2\<rparr>,
              \<lparr>name = ''Medium allocations (1KB)'', duration_ms = workload_duration E s1,
                operations = N * 2\<rparr>,
              \<lparr>name = ''Large allocations (1MB)'', duration_ms = workload_duration E s2,
                operations = N div 10 * 2\<rparr>,
              \<lparr>name = ''Mixed size allocations'', duration_ms = workload_duration E s3,
                operations = N * 2\<rparr>,
              \<lparr>name = ''Reallocations'', duration_ms = workload_duration E s4,
                operations = N\<rparr>,
              \<lparr>name = ''String operations'', duration_ms = workload_duration E s5,
                operations = N * 3\<rparr>,
              \<lparr>name = ''Vector growth'', duration_ms = workload_duration E s6,
                operations = N\<rparr>], s7)
    \<and> length ps1 = unat N
    \<and> trace s1 = trace s @ map (Malloc 64) ps1 @ map Free ps1
    \<and> length ps2 = unat N
    \<and> trace s2 = trace s1 @ map (Malloc 1024) ps2 @ map Free ps2
    \<and> length ps3 = unat N div 10
    \<and> trace s3 = trace s2 @ map (Malloc (1024 * 1024)) ps3 @ map Free ps3
    \<and> length ps4 = unat N
    \<and> trace s4 = trace s3 @ map (\<lambda>k. Malloc (sizes ! (k mod 10)) (ps4 ! k)) [0..<unat N]
                     @ map Free (rev ps4)"
proof -
  have d: "unat (N div 10) = unat N div 10"
    by (simp add: unat_div)
  then have p10: "unat (N div 10) \<le> ptr_vector_max_size E"
    using p by simp
  obtain ps1 s1 where 1:
    "benchmark_small_allocations E N s =
        Inr (\<lparr>name = ''Small allocations (64 bytes)'', duration_ms = workload_duration E s,
               operations = N * 2\<rparr>, s1)"
    "length ps1 = unat N" "trace s1 = trace s @ map (Malloc 64) ps1 @ map Free ps1"
    using small_spec [OF p, of s] by blast
  obtain ps2 s2 where 2:
    "benchmark_medium_allocations E N s1 =
        Inr (\<lparr>name = ''Medium allocations (1KB)'', duration_ms = workload_duration E s1,
               operations = N * 2\<rparr>, s2)"
    "length ps2 = unat N" "trace s2 = trace s1 @ map (Malloc 1024) ps2 @ map Free ps2"
    using medium_spec [OF p, of s1] by blast
  obtain ps3 s3 where 3:
    "benchmark_large_allocations E (N div 10) s2 =
        Inr (\<lparr>name = ''Large allocations (1MB)'', duration_ms = workload_duration E s2,
               operations = N div 10 * 2\<rparr>, s3)"
    "length ps3 = unat (N div 10)"
    "trace s3 = trace s2 @ map (Malloc (1024 * 1024)) ps3 @ map Free ps3"
    using large_spec [OF p10, of s2] by blast
  obtain ps4 s4 where 4:
    "benchmark_mixed_sizes E N s3 =
        Inr (\<lparr>name = ''Mixed size allocations'', duration_ms = workload_duration E s3,
               operations = N * 2\<rparr>, s4)"
    "length ps4 = unat N"
    "trace s4 = trace s3 @ map (\<lambda>k. Malloc (sizes ! (k mod 10)) (ps4 ! k)) [0..<unat N]
                     @ map Free (rev ps4)"
    using mixed_spec [OF p, of s3] by blast
  obtain s5 where 5:
    "benchmark_reallocations E N s4 =
        (\<lparr>name = ''Reallocations'', duration_ms = workload_duration E s4,
           operations = N\<rparr>, s5)"
    using reallocations_spec [of E N s4] by blast
  obtain s6 where 6:
    "benchmark_string_operations E N s5 =
        Inr (\<lparr>name = ''String operations'', duration_ms = workload_duration E s5,
               operations = N * 3\<rparr>, s6)"
    using string_operations_spec [OF st, of s5] by blast
  obtain s7 where 7:
    "benchmark_container_growth E N s6 =
        Inr (\<lparr>name = ''Vector growth'', duration_ms = workload_duration E s6,
               operations = N\<rparr>, s7)"
    using container_growth_spec [OF iv, of s6] by blast
  have r: "run_workloads E N s =
        Inr ([\<lparr>name = ''Small allocations (64 bytes)'', duration_ms = workload_duration E s,
                operations = N * 2\<rparr>,
              \<lparr>name = ''Medium allocations (1KB)'', duration_ms = workload_duration E s1,
                operations = N * 2\<rparr>,
              \<lparr>name = ''Large allocations (1MB)'', duration_ms = workload_duration E s2,
                operations = N div 10 * 2\<rparr>,
              \<lparr>name = ''Mixed size allocations'', duration_ms = workload_duration E s3,
                operations = N * 2\<rparr>,
              \<lparr>name = ''Reallocations'', duration_ms = workload_duration E s4,
                operations = N\<rparr>,
              \<lparr>name = ''String operations'', duration_ms = workload_duration E s5,
                operations = N * 3\<rparr>,
              \<lparr>name = ''Vector growth'', duration_ms = workload_duration E s6,
                operations = N\<rparr>], s7)"
    unfolding run_workloads_def and_then_def
    by (simp only: 1(1) 2(1) 3(1) 4(1) 5 6 7 sum.case prod.case)
  show ?thesis
    using 1 2 3 [unfolded d] 4 5 6 7 r by blast
qed


text \<open>
  C7. For every base iteration count \<open>N\<close> (within the vectors' \<^verbatim>\<open>max_size()\<close>), the
  run invokes, in this order, the small and medium workloads with \<open>N\<close>, the
  large-allocation workload with \<open>N div 10\<close>, and the mixed, reallocation, string and
  container-growth workloads with \<open>N\<close>, each from the state the previous one left, and
  collects their results in that order. Accordingly the large workload makes
  \<open>N div 10\<close> requests of 1 MiB, while the small, medium and mixed workloads make \<open>N\<close>
  requests each.
\<close>

theorem run_workloads_iteration_counts:
  assumes "unat N \<le> ptr_vector_max_size E"
    and "unat N \<le> string_vector_max_size E"
    and "unat N \<le> int_vector_max_size E"
  shows "\<exists>r1 s1 r2 s2 r3 s3 r4 s4 r5 s5 r6 s6 r7 s7 ps1 ps2 ps3 ps4.
      benchmark_small_allocations E N s = Inr (r1, s1)
    \<and> benchmark_medium_allocations E N s1 = Inr (r2, s2)
    \<and> benchmark_large_allocations E (N div 10) s2 = Inr (r3, s3)
    \<and> benchmark_mixed_sizes E N s3 = Inr (r4, s4)
    \<and> benchmark_reallocations E N s4 = (r5, s5)
    \<and> benchmark_string_operations E N s5 = Inr (r6, s6)
    \<and> benchmark_container_growth E N s6 = Inr (r7, s7)
    \<and> run_workloads E N s = Inr ([r1, r2, r3, r4, r5, r6, r7], s7)
    \<and> length ps1 = unat N
    \<and> trace s1 = trace s @ map (Malloc 64) ps1 @ map Free ps1
    \<and> length ps2 = unat N
    \<and> trace s2 = trace s1 @ map (Malloc 1024) ps2 @ map Free ps2
    \<and> length ps3 = unat N div 10
    \<and> trace s3 = trace s2 @ map (Malloc (1024 * 1024)) ps3 @ map Free ps3
    \<and> length ps4 = unat N
    \<and> trace s4 = trace s3 @ map (\<lambda>k. Malloc (sizes ! (k mod 10)) (ps4 ! k)) [0..<unat N]
                     @ map Free (rev ps4)"
  using run_workloads_spec [OF assms, of s] by blast

text \<open>
  The hypotheses of C7 hold for a base count of 20 in the bump environment.
\<close>

theorem run_workloads_iteration_counts_witness:
  "unat (20 :: size_t) \<le> ptr_vector_max_size bump_env
   \<and> unat (20 :: size_t) \<le> string_vector_max_size bump_env
   \<and> unat (20 :: size_t) \<le> int_vector_max_size bump_env
   \<and> (\<exists>r1 s1 r2 s2 r3 s3 r4 s4 r5 s5 r6 s6 r7 s7 ps3.
      benchmark_small_allocations bump_env 20 init_state = Inr (r1, s1)
    \<and> benchmark_medium_allocations bump_env 20 s1 = Inr (r2, s2)
    \<and> benchmark_large_allocations bump_env (20 div 10) s2 = Inr (r3, s3)
    \<and> benchmark_mixed_sizes bump_env 20 s3 = Inr (r4, s4)
    \<and> benchmark_reallocations bump_env 20 s4 = (r5, s5)
    \<and> benchmark_string_operations bump_env 20 s5 = Inr (r6, s6)
    \<and> benchmark_container_growth bump_env 20 s6 = Inr (r7, s7)
    \<and> run_workloads bump_env 20 init_state = Inr ([r1, r2, r3, r4, r5, r6, r7], s7)
    \<and> length ps3 = unat (20 :: size_t) div 10
    \<and> trace s3 = trace s2 @ map (Malloc (1024 * 1024)) ps3 @ map Free ps3)"
proof -
  have h1: "unat (20 :: size_t) \<le> ptr_vector_max_size bump_env"
    and h2: "unat (20 :: size_t) \<le> string_vector_max_size bump_env"
    and h3: "unat (20 :: size_t) \<le> int_vector_max_size bump_env"
    by (simp_all add: bump_env_def)
  show ?thesis
    using h1 h2 h3 run_workloads_iteration_counts [OF h1 h2 h3, of init_state] by blast
qed

subsection \<open>The default run\<close>

lemma results_report: "results (report rs) = rs"
  by (simp add: report_def split: prod.split)

lemma workload_duration_nonneg:
  assumes "\<And>k. env_now E k \<le> env_now E (Suc k)"
  shows "nonneg (workload_duration E s)"
  using assms by (intro elapsed_between_nonneg(2))

lemma workload_duration_backward: "workload_duration backward_env s = Finite (- (1 / 1000))"
proof -
  have "env_now backward_env (Suc (clock_reads s)) - env_now backward_env (clock_reads s)
          = - 1500"
    by (simp add: backward_env_def)
  then show ?thesis
    by (simp add: elapsed_between_def sdiv_1000)
qed


text \<open>
  C3 (amended). With vectors that can hold 10000 elements, \<^verbatim>\<open>run_benchmark\<close> (whose
  iteration count is 10000, and 1000 for the large allocations) produces exactly seven
  results, in the order small, medium, large, mixed, reallocations, strings, growth, with
  the operations 20000, 20000, 2000, 20000, 10000, 30000, 10000. Each \<open>duration_ms\<close> is
  non-negative when the clock does not go backwards during the run; the code reads
  \<^verbatim>\<open>high_resolution_clock\<close> and does not check.
\<close>

theorem default_run_results:
  assumes "10000 \<le> ptr_vector_max_size E"
    and "10000 \<le> string_vector_max_size E"
    and "10000 \<le> int_vector_max_size E"
  shows "\<exists>rep s'. run_benchmark E s = Inr (rep, s')
     \<and> length (results rep) = 7
     \<and> map name (results rep) =
         [''Small allocations (64 bytes)'', ''Medium allocations (1KB)'',
          ''Large allocations (1MB)'', ''Mixed size allocations'', ''Reallocations'',
          ''String operations'', ''Vector growth'']
     \<and> map operations (results rep) = [20000, 20000, 2000, 20000, 10000, 30000, 10000]
     \<and> ((\<forall>k. env_now E k \<le> env_now E (Suc k))
          \<longrightarrow> list_all (\<lambda>r. nonneg (duration_ms r)) (results rep))"
proof -
  have p: "unat (10000 :: size_t) \<le> ptr_vector_max_size E"
    and st: "unat (10000 :: size_t) \<le> string_vector_max_size E"
    and iv: "unat (10000 :: size_t) \<le> int_vector_max_size E"
    using assms by simp_all
  obtain s1 s2 s3 s4 s5 s6 s7 where r:
    "run_workloads E 10000 s =
        Inr ([\<lparr>name = ''Small allocations (64 bytes)'', duration_ms = workload_duration E s,
                operations = 10000 * 2\<rparr>,
              \<lparr>name = ''Medium allocations (1KB)'', duration_ms = workload_duration E s1,
                operations = 10000 * 2\<rparr>,
              \<lparr>name = ''Large allocations (1MB)'', duration_ms = workload_duration E s2,
                operations = 10000 div 10 * 2\<rparr>,
              \<lparr>name = ''Mixed size allocations'', duration_ms = workload_duration E s3,
                operations = 10000 * 2\<rparr>,
              \<lparr>name = ''Reallocations'', duration_ms = workload_duration E s4,
                operations = 10000\<rparr>,
              \<lparr>name = ''String operations'', duration_ms = workload_duration E s5,
                operations = 10000 * 3\<rparr>,
              \<lparr>name = ''Vector growth'', duration_ms = workload_duration E s6,
                operations = 10000\<rparr>], s7)"
    using run_workloads_spec [OF p st iv, of s] by blast
  let ?rs = "[\<lparr>name = ''Small allocations (64 bytes)'', duration_ms = workload_duration E s,
                operations = 10000 * 2\<rparr>,
              \<lparr>name = ''Medium allocations (1KB)'', duration_ms = workload_duration E s1,
                operations = 10000 * 2\<rparr>,
              \<lparr>name = ''Large allocations (1MB)'', duration_ms = workload_duration E s2,
                operations = 10000 div 10 * 2\<rparr>,
              \<lparr>name = ''Mixed size allocations'', duration_ms = workload_duration E s3,
                operations = 10000 * 2\<rparr>,
              \<lparr>name = ''Reallocations'', duration_ms = workload_duration E s4,
                operations = 10000\<rparr>,
              \<lparr>name = ''String operations'', duration_ms = workload_duration E s5,
                operations = 10000 * 3\<rparr>,
              \<lparr>name = ''Vector growth'', duration_ms = workload_duration E s6,
                operations = 10000\<rparr>]"
  have run: "run_benchmark E s = Inr (report ?rs, s7)"
    by (simp add: run_benchmark_def r and_then_def)
  have len: "length (results (report ?rs)) = 7"
    by (simp add: results_report)
  have names: "map name (results (report ?rs)) =
         [''Small allocations (64 bytes)'', ''Medium allocations (1KB)'',
          ''Large allocations (1MB)'', ''Mixed size allocations'', ''Reallocations'',
          ''String operations'', ''Vector growth'']"
    by (simp add: results_report)
  have ops: "map operations (results (report ?rs)) =
         [20000, 20000, 2000, 20000, 10000, 30000, 10000]"
    by (simp add: results_report)
  have durs: "(\<forall>k. env_now E k \<le> env_now E (Suc k))
          \<longrightarrow> list_all (\<lambda>r. nonneg (duration_ms r)) (results (report ?rs))"
  proof
    assume "\<forall>k. env_now E k \<le> env_now E (Suc k)"
    then have "\<And>k. env_now E k \<le> env_now E (Suc k)" by blast
    then show "list_all (\<lambda>r. nonneg (duration_ms r)) (results (report ?rs))"
      using workload_duration_nonneg [of E] by (simp add: results_report)
  qed
  show ?thesis
  proof (intro exI conjI)
    show "run_benchmark E s = Inr (report ?rs, s7)" by (fact run)
    show "length (results (report ?rs)) = 7" by (fact len)
    show "map name (results (report ?rs)) =
         [''Small allocations (64 bytes)'', ''Medium allocations (1KB)'',
          ''Large allocations (1MB)'', ''Mixed size allocations'', ''Reallocations'',
          ''String operations'', ''Vector growth'']" by (fact names)
    show "map operations (results (report ?rs)) =
         [20000, 20000, 2000, 20000, 10000, 30000, 10000]" by (fact ops)
    show "(\<forall>k. env_now E k \<le> env_now E (Suc k))
          \<longrightarrow> list_all (\<lambda>r. nonneg (duration_ms r)) (results (report ?rs))" by (fact durs)
  qed
qed

text \<open>
  The hypotheses of C3 and its condition on the clock hold in the bump environment, whose
  clock advances by 1500 ns per reading.
\<close>

theorem default_run_results_witness:
  "10000 \<le> ptr_vector_max_size bump_env
   \<and> 10000 \<le> string_vector_max_size bump_env
   \<and> 10000 \<le> int_vector_max_size bump_env
   \<and> (\<forall>k. env_now bump_env k \<le> env_now bump_env (Suc k))
   \<and> (\<exists>rep s'. run_benchmark bump_env init_state = Inr (rep, s')
     \<and> length (results rep) = 7
     \<and> map operations (results rep) = [20000, 20000, 2000, 20000, 10000, 30000, 10000]
     \<and> list_all (\<lambda>r. nonneg (duration_ms r)) (results rep))"
proof -
  have h0: "\<forall>k. env_now bump_env k \<le> env_now bump_env (Suc k)"
    by (simp add: bump_env_def)
  have h1: "10000 \<le> ptr_vector_max_size bump_env"
    and h2: "10000 \<le> string_vector_max_size bump_env"
    and h3: "10000 \<le> int_vector_max_size bump_env"
    by (simp_all add: bump_env_def)
  obtain rep s' where r: "run_benchmark bump_env init_state = Inr (rep, s')"
    "length (results rep) = 7"
    "map operations (results rep) = [20000, 20000, 2000, 20000, 10000, 30000, 10000]"
    "list_all (\<lambda>r. nonneg (duration_ms r)) (results rep)"
    using default_run_results [OF h1 h2 h3, of init_state] h0 by auto
  have "\<exists>rep s'. run_benchmark bump_env init_state = Inr (rep, s')
     \<and> length (results rep) = 7
     \<and> map operations (results rep) = [20000, 20000, 2000, 20000, 10000, 30000, 10000]
     \<and> list_all (\<lambda>r. nonneg (duration_ms r)) (results rep)"
    by (intro exI conjI) (fact r)+
  with h0 h1 h2 h3 show ?thesis by simp
qed

text \<open>
  C3 as stated fails: under a clock that is set back by 1500 ns between readings the
  default run returns its seven results, and each of them has the duration \<open>-0.001\<close>,
  which is negative.
\<close>

theorem default_run_backward_clock_counterexample:
  "\<not> isl (run_benchmark backward_env init_state)
   \<and> map duration_ms (results (fst (projr (run_benchmark backward_env init_state))))
       = [Finite (- (1 / 1000)), Finite (- (1 / 1000)), Finite (- (1 / 1000)),
          Finite (- (1 / 1000)), Finite (- (1 / 1000)), Finite (- (1 / 1000)),
          Finite (- (1 / 1000))]
   \<and> \<not> nonneg (Finite (- (1 / 1000)))"
proof -
  have p: "unat (10000 :: size_t) \<le> ptr_vector_max_size backward_env"
    and st: "unat (10000 :: size_t) \<le> string_vector_max_size backward_env"
    and iv: "unat (10000 :: size_t) \<le> int_vector_max_size backward_env"
    by (simp_all add: backward_env_def)
  obtain rs s7 where r: "run_workloads backward_env 10000 init_state = Inr (rs, s7)"
    and d: "map duration_ms rs =
        [workload_duration backward_env init_state, Finite (- (1 / 1000)),
         Finite (- (1 / 1000)), Finite (- (1 / 1000)), Finite (- (1 / 1000)),
         Finite (- (1 / 1000)), Finite (- (1 / 1000))]"
    using run_workloads_spec [OF p st iv, of init_state]
    by (auto simp: workload_duration_backward)
  have run: "run_benchmark backward_env init_state = Inr (report rs, s7)"
    by (simp add: run_benchmark_def r and_then_def)
  show ?thesis
    using d by (simp add: run results_report workload_duration_backward)
qed

end
